theory Spec2Isabelle
  imports Main "HOL-Library.AList"
begin

section \<open>Values, errors and library collaborators\<close>

text \<open>
  The library is Python. Values that reach the modelled code are \<open>None\<close>, booleans,
  integers, strings, lists, tuples, sets, dictionaries with string keys (decoded JSON
  objects, keyword arguments) and instances of the model classes of \<open>models.py\<close>.
  A dictionary is an association list in insertion order. An instance is its class
  together with the attributes that \<open>__init__\<close> sets, one per key of
  \<open>attribute_defaults\<close>, in that order. Floating-point numbers are not modelled.
\<close>

datatype model_cls = Report | User | Account | Contact | Project | Task | TimeEntry | Dock

datatype pyval =
    PNone
  | PBool bool
  | PInt int
  | PStr string
  | PList "pyval list"
  | PTuple "pyval list"
  | PSet "pyval list"
  | PDict "(string \<times> pyval) list"
  | PObj model_cls "(string \<times> pyval) list"

type_synonym pydict = "(string \<times> pyval) list"

text \<open>
  Every \<open>raise\<close> of the source is a value. \<open>ClientException\<close> is the class of
  \<open>exceptions.py\<close>, \<open>HTTPError\<close> the one of the HTTP library (with the status of
  the response), \<open>SystemExit e\<close> the interpreter exit raised around \<open>e\<close>; the others
  are the built-in exceptions of the operations the code performs.
\<close>

datatype error =
    ClientException string
  | HTTPError nat
  | SystemExit error
  | AttributeError
  | TypeError
  | JSONDecodeError
  | ConnectionError

section \<open>api.py: the URL builder\<close>

text \<open>
  \<open>urlparse(BASE_URL)\<close> is a six-field named tuple. \<open>BASE_URL\<close> is imported from
  \<open>constants.py\<close>, so the parsed base is a parameter of the model.
\<close>

record url_parts =
  scheme :: string
  netloc :: string
  path :: string
  params :: string
  query :: string
  fragment :: string

definition uses_netloc :: "string list" where
  "uses_netloc = ['''', ''ftp'', ''http'', ''gopher'', ''nntp'', ''telnet'', ''imap'',
     ''wais'', ''file'', ''mms'', ''https'', ''shttp'', ''snews'', ''prospero'', ''rtsp'',
     ''rtsps'', ''rtspu'', ''rsync'', ''svn'', ''svn+ssh'', ''sftp'', ''nfs'', ''git'',
     ''git+ssh'', ''ws'', ''wss'']"

text \<open>\<open>urllib.parse.urlunsplit\<close> on scheme, netloc, url, query and fragment.\<close>

definition urlunsplit :: "string \<Rightarrow> string \<Rightarrow> string \<Rightarrow> string \<Rightarrow> string \<Rightarrow> string" where
  "urlunsplit sch loc url qry frag =
     (let url1 = (if loc \<noteq> [] \<or> (sch \<noteq> [] \<and> sch \<in> set uses_netloc) \<or> take 2 url = ''//''
                  then ''//'' @ loc @ (if url \<noteq> [] \<and> take 1 url \<noteq> ''/'' then ''/'' @ url else url)
                  else url);
          url2 = (if sch \<noteq> [] then sch @ '':'' @ url1 else url1);
          url3 = (if qry \<noteq> [] then url2 @ ''?'' @ qry else url2)
      in if frag \<noteq> [] then url3 @ ''#'' @ frag else url3)"

text \<open>\<open>ParseResult.geturl\<close> is \<open>urlunparse\<close> of the tuple.\<close>

definition geturl :: "url_parts \<Rightarrow> string" where
  "geturl u =
     urlunsplit (scheme u) (netloc u)
       (if params u \<noteq> [] then path u @ '';'' @ params u else path u)
       (query u) (fragment u)"

text \<open>
  Strings are lists of 8-bit characters, read as the code points 0 to 255. Among them
  \<open>str.lower\<close> changes the letters A to Z (65 to 90) and the accented capitals 192 to
  222 other than the multiplication sign 215, each to the code point 32 above it, and
  leaves every other character as it is.
\<close>

definition upper_case :: "char \<Rightarrow> bool" where
  "upper_case c \<longleftrightarrow>
     (65 \<le> (of_char c :: nat) \<and> (of_char c :: nat) \<le> 90) \<or>
     (192 \<le> (of_char c :: nat) \<and> (of_char c :: nat) \<le> 222 \<and> (of_char c :: nat) \<noteq> 215)"

definition lower_char :: "char \<Rightarrow> char" where
  "lower_char c = (if upper_case c then char_of ((of_char c :: nat) + 32) else c)"

definition lower :: "string \<Rightarrow> string" where
  "lower s = map lower_char s"

text \<open>\<open>str(n)\<close> for an integer: decimal digits, with a minus sign below zero.\<close>

fun digits :: "nat \<Rightarrow> string" where
  "digits n = (if n < 10 then [''0123456789'' ! n]
               else digits (n div 10) @ [''0123456789'' ! (n mod 10)])"

declare digits.simps [simp del]

definition str_int :: "int \<Rightarrow> string" where
  "str_int i = (if i < 0 then ''-'' @ digits (nat (- i)) else digits (nat i))"

text \<open>
  A path variable is an identifier (\<open>id: int\<close>) or one of the literal strings the
  facade passes (\<open>"start"\<close>, \<open>"pause"\<close>, \<open>"log"\<close>); the f-string formats it with
  \<open>str\<close>.
\<close>

datatype path_var = IntVar int | StrVar string

fun str_path_var :: "path_var \<Rightarrow> string" where
  "str_path_var (IntVar i) = str_int i"
| "str_path_var (StrVar s) = s"

text \<open>
  \<open>MinuteDockCall.__api_url\<close>. \<open>urlencode\<close> is the library's encoder of the query
  parameters and \<open>base\<close> is \<open>urlparse(BASE_URL)\<close>.
\<close>

definition api_url ::
  "(pydict \<Rightarrow> string) \<Rightarrow> url_parts \<Rightarrow> string option \<Rightarrow> path_var option \<Rightarrow> pydict option
     \<Rightarrow> error + string" where
  "api_url urlencode base pth pvar prms =
     (case pth of
        None \<Rightarrow> Inl (ClientException ''path must not be None.'')
      | Some p \<Rightarrow>
          (let url_parts1 = (case prms of None \<Rightarrow> base
                             | Some ps \<Rightarrow> base\<lparr>query := urlencode ps\<rparr>);
               p1 = (case pvar of None \<Rightarrow> p | Some v \<Rightarrow> p @ ''/'' @ str_path_var v);
               url_parts2 = url_parts1\<lparr>path := p1\<rparr>
           in Inr (lower (geturl url_parts2))))"

section \<open>models.py: the record layer\<close>

text \<open>
  Every model class declares its fields in \<open>attribute_defaults\<close>; every default is
  \<open>None\<close>.
\<close>

fun attribute_defaults :: "model_cls \<Rightarrow> pydict" where
  "attribute_defaults Report =
     [(''description'', PNone), (''total_entries'', PNone), (''hours'', PNone),
      (''billable_hours'', PNone), (''billable_value'', PNone)]"
| "attribute_defaults User =
     [(''id'', PNone), (''email'', PNone), (''first_name'', PNone), (''last_name'', PNone)]"
| "attribute_defaults Account = [(''id'', PNone), (''name'', PNone)]"
| "attribute_defaults Contact =
     [(''id'', PNone), (''budget_type'', PNone), (''budget_frequency'', PNone),
      (''budget_target'', PNone), (''budget_progress'', PNone),
      (''default_rate_dollars'', PNone), (''pinned'', PNone), (''name'', PNone),
      (''short_code'', PNone), (''active'', PNone)]"
| "attribute_defaults Project =
     [(''id'', PNone), (''budget_type'', PNone), (''budget_frequency'', PNone),
      (''budget_target'', PNone), (''budget_progress'', PNone),
      (''default_rate_dollars'', PNone), (''pinned'', PNone), (''name'', PNone),
      (''contact_id'', PNone), (''short_code'', PNone), (''active'', PNone),
      (''hidden'', PNone), (''description'', PNone)]"
| "attribute_defaults Task =
     [(''id'', PNone), (''budget_type'', PNone), (''budget_frequency'', PNone),
      (''budget_target'', PNone), (''budget_progress'', PNone),
      (''default_rate_dollars'', PNone), (''pinned'', PNone), (''short_code'', PNone),
      (''active'', PNone), (''hidden'', PNone), (''description'', PNone),
      (''has_detail'', PNone)]"
| "attribute_defaults TimeEntry =
     [(''id'', PNone), (''account_id'', PNone), (''description'', PNone),
      (''duration'', PNone), (''contact_id'', PNone), (''project_id'', PNone),
      (''task_ids'', PNone), (''invoice_id'', PNone), (''logged_at'', PNone)]"
| "attribute_defaults Dock =
     [(''id'', PNone), (''account_id'', PNone), (''description'', PNone),
      (''duration'', PNone), (''contact_id'', PNone), (''project_id'', PNone),
      (''task_ids'', PNone), (''timer_active'', PNone)]"

text \<open>
  \<open>__init__(self, **kwargs)\<close>, the same loop in every class: one attribute per declared
  field, \<open>kwargs.get(attribute, default)\<close>. The result is the attribute list of the new
  instance.
\<close>

definition init :: "model_cls \<Rightarrow> pydict \<Rightarrow> pydict" where
  "init cls kwargs =
     map (\<lambda>(attribute, default).
            (attribute, case map_of kwargs attribute of None \<Rightarrow> default | Some v \<Rightarrow> v))
         (attribute_defaults cls)"

text \<open>
  An instance of \<open>cls\<close> holds exactly the declared attributes, in declaration order.
\<close>

definition instance_of :: "model_cls \<Rightarrow> pydict \<Rightarrow> bool" where
  "instance_of cls attrs \<longleftrightarrow> map fst attrs = map fst (attribute_defaults cls)"

text \<open>Truth value testing of the interpreter, as \<open>elif getattr(self, key, None):\<close> uses it.\<close>

fun truthy :: "pyval \<Rightarrow> bool" where
  "truthy PNone = False"
| "truthy (PBool b) = b"
| "truthy (PInt i) = (i \<noteq> 0)"
| "truthy (PStr s) = (s \<noteq> [])"
| "truthy (PList xs) = (xs \<noteq> [])"
| "truthy (PTuple xs) = (xs \<noteq> [])"
| "truthy (PSet xs) = (xs \<noteq> [])"
| "truthy (PDict d) = (d \<noteq> [])"
| "truthy (PObj c a) = True"

text \<open>
  \<open>BaseModel.to_dict\<close>, on the attributes of \<open>self\<close>. The outer loop runs over the
  declared fields: a list, tuple or set becomes a list of its elements, each element that
  has a \<open>to_dict\<close> (a model instance) replaced by its own mapping (\<open>to_dict_objs\<close> is
  the inner loop); a model instance becomes its mapping; any other value is kept when it
  is truthy and left out otherwise.
\<close>

fun to_dict :: "pydict \<Rightarrow> pydict"
  and to_dict_objs :: "pyval list \<Rightarrow> pyval list" where
  "to_dict [] = []"
| "to_dict ((key, PList xs) # rest) = (key, PList (to_dict_objs xs)) # to_dict rest"
| "to_dict ((key, PTuple xs) # rest) = (key, PList (to_dict_objs xs)) # to_dict rest"
| "to_dict ((key, PSet xs) # rest) = (key, PList (to_dict_objs xs)) # to_dict rest"
| "to_dict ((key, PObj c a) # rest) = (key, PDict (to_dict a)) # to_dict rest"
| "to_dict ((key, v) # rest) = (if truthy v then (key, v) # to_dict rest else to_dict rest)"
| "to_dict_objs [] = []"
| "to_dict_objs (PObj c a # rest) = PDict (to_dict a) # to_dict_objs rest"
| "to_dict_objs (obj # rest) = obj # to_dict_objs rest"

text \<open>
  What one pass of the outer loop of \<open>to_dict\<close> stores for a field value, if anything.
\<close>

fun to_dict_field :: "pyval \<Rightarrow> pyval option" where
  "to_dict_field (PList xs) = Some (PList (to_dict_objs xs))"
| "to_dict_field (PTuple xs) = Some (PList (to_dict_objs xs))"
| "to_dict_field (PSet xs) = Some (PList (to_dict_objs xs))"
| "to_dict_field (PObj c a) = Some (PDict (to_dict a))"
| "to_dict_field v = (if truthy v then Some v else None)"

lemma to_dict_size:
  "size_list (size_prod (\<lambda>_. 0) size) (to_dict a) \<le> size_list (size_prod (\<lambda>_. 0) size) a"
  "size_list size (to_dict_objs xs) \<le> size_list size xs"
  by (induction a and xs rule: to_dict_to_dict_objs.induct) auto

lemma size_elem_le: "x \<in> set xs \<Longrightarrow> size x \<le> size_list size xs"
  by (induction xs) auto

lemma size_entry_le: "(k, v) \<in> set d \<Longrightarrow> size v \<le> size_list (size_prod (\<lambda>_. 0) size) d"
  by (induction d) auto

text \<open>
  The interpreter's \<open>==\<close> on the modelled values. Booleans are integers
  (\<open>True == 1\<close>); lists and tuples compare by length and elementwise; sets and
  dictionaries compare as the collections they denote: two sets by membership of each
  one's elements in the other, two dictionaries key by key over the keys of both (a key
  bound in one and not in the other makes them differ). On two model instances
  \<open>==\<close> is \<open>BaseModel.__eq__\<close>, which compares the two \<open>to_dict\<close> mappings. Where a
  model instance meets a value without \<open>to_dict\<close> the method raises; that comparison is
  taken as unequal here.
\<close>

function py_eq :: "pyval \<Rightarrow> pyval \<Rightarrow> bool" where
  "py_eq PNone w = (w = PNone)"
| "py_eq (PBool b) w =
     (case w of PBool c \<Rightarrow> b = c | PInt j \<Rightarrow> (if b then 1 else 0) = j | _ \<Rightarrow> False)"
| "py_eq (PInt i) w =
     (case w of PBool c \<Rightarrow> i = (if c then 1 else 0) | PInt j \<Rightarrow> i = j | _ \<Rightarrow> False)"
| "py_eq (PStr s) w = (w = PStr s)"
| "py_eq (PList xs) w = (case w of PList ys \<Rightarrow> list_all2 py_eq xs ys | _ \<Rightarrow> False)"
| "py_eq (PTuple xs) w = (case w of PTuple ys \<Rightarrow> list_all2 py_eq xs ys | _ \<Rightarrow> False)"
| "py_eq (PSet xs) w =
     (case w of
        PSet ys \<Rightarrow>
          list_all (\<lambda>x. list_ex (\<lambda>y. py_eq x y) ys) xs \<and>
          list_all (\<lambda>y. list_ex (\<lambda>x. py_eq x y) xs) ys
      | _ \<Rightarrow> False)"
| "py_eq (PDict d) w =
     (case w of
        PDict e \<Rightarrow>
          list_all
            (\<lambda>k. case map_of d k of
                   None \<Rightarrow> map_of e k = None
                 | Some v \<Rightarrow> (case map_of e k of None \<Rightarrow> False | Some u \<Rightarrow> py_eq v u))
            (map fst d @ map fst e)
      | _ \<Rightarrow> False)"
| "py_eq (PObj c self) w =
     (case w of
        PObj c' other \<Rightarrow> py_eq (PDict (to_dict other)) (PDict (to_dict self))
      | _ \<Rightarrow> False)"
  by pat_completeness auto

termination
proof (relation "measures [\<lambda>(x, y). size x + size y,
                           \<lambda>(x, y). case x of PObj _ _ \<Rightarrow> 1 | _ \<Rightarrow> 0]",
       goal_cases)
  case 1
  show ?case by simp
next
  case (2 xs w ys x y)
  then show ?case using size_elem_le[of x xs] size_elem_le[of y ys] by simp
next
  case (3 xs w ys x y)
  then show ?case using size_elem_le[of x xs] size_elem_le[of y ys] by simp
next
  case (4 xs w ys x y)
  then show ?case using size_elem_le[of x xs] size_elem_le[of y ys] by simp
next
  case (5 xs w ys y x)
  then show ?case using size_elem_le[of x xs] size_elem_le[of y ys] by simp
next
  case (6 d w e k v u)
  then have "(k, v) \<in> set d" and "(k, u) \<in> set e"
    by (auto dest: map_of_SomeD)
  with 6 show ?case
    using size_entry_le[of k v d] size_entry_le[of k u e] by simp
next
  case (7 c a w c' b)
  then show ?case using to_dict_size(1)[of a] to_dict_size(1)[of b] by auto
qed

text \<open>
  \<open>BaseModel.__eq__(self, _value)\<close> on two instances, each given by its attributes:
  \<open>_value.to_dict() == self.to_dict()\<close>.
\<close>

definition model_eq :: "pydict \<Rightarrow> pydict \<Rightarrow> bool" where
  "model_eq self other = py_eq (PDict (to_dict other)) (PDict (to_dict self))"

text \<open>
  No declared field holds a model instance whose own \<open>to_dict\<close> mapping is empty.
\<close>

definition no_empty_nested :: "pydict \<Rightarrow> bool" where
  "no_empty_nested attrs =
     list_all (\<lambda>(key, v). case v of PObj c obj \<Rightarrow> to_dict obj \<noteq> [] | _ \<Rightarrow> True) attrs"

text \<open>
  The call \<open>cls(**value)\<close>. A dictionary is expanded into keyword arguments of
  \<open>__init__(self, **kwargs)\<close>: a key \<open>self\<close> collides with the parameter that
  already holds the new object, and the call raises \<open>TypeError\<close>; any other keys
  arrive in \<open>kwargs\<close>. A model instance answers the lookup of \<open>keys\<close> with the
  \<open>ClientException\<close> of \<open>BaseModel.__getattr__\<close>; anything else is not a mapping.
\<close>

definition no_self_key :: "pydict \<Rightarrow> bool" where
  "no_self_key d \<longleftrightarrow> ''self'' \<notin> set (map fst d)"

fun construct :: "model_cls \<Rightarrow> pyval \<Rightarrow> error + pyval" where
  "construct cls (PDict d) =
     (if no_self_key d then Inr (PObj cls (init cls d)) else Inl TypeError)"
| "construct cls (PObj c a) =
     Inl (ClientException ''The attribute does not exist in this object.'')"
| "construct cls v = Inl TypeError"

text \<open>The list branch of \<open>_create_from_dict\<close>: one instance per element, in order.\<close>

fun create_from_list :: "model_cls \<Rightarrow> pyval list \<Rightarrow> error + pyval list" where
  "create_from_list cls [] = Inr []"
| "create_from_list cls (v # rest) =
     (case construct cls v of
        Inl e \<Rightarrow> Inl e
      | Inr class_obj \<Rightarrow>
          (case create_from_list cls rest of
             Inl e \<Rightarrow> Inl e
           | Inr objs \<Rightarrow> Inr (class_obj # objs)))"

text \<open>
  \<open>BaseModel._create_from_dict(cls, _data, **kwargs)\<close>. \<open>None\<close> gives \<open>None\<close>.
  \<open>_data.copy()\<close> exists on lists, dictionaries and sets only; the extra keyword
  arguments are stored into the copy by key, which a list or a set refuses. A dictionary
  is handed to \<open>cls(**json_data)\<close>. The back-reference \<open>class_obj._json\<close> is read
  by no operation and is left out.
\<close>

definition create_from_dict :: "model_cls \<Rightarrow> pyval \<Rightarrow> pydict \<Rightarrow> error + pyval" where
  "create_from_dict cls data kwargs =
     (case data of
        PNone \<Rightarrow> Inr PNone
      | PList xs \<Rightarrow>
          (if kwargs \<noteq> [] then Inl TypeError
           else (case create_from_list cls xs of
                   Inl e \<Rightarrow> Inl e
                 | Inr objs \<Rightarrow> Inr (PList objs)))
      | PDict d \<Rightarrow> construct cls (PDict (fold (\<lambda>(key, v). AList.update key v) kwargs d))
      | PSet xs \<Rightarrow> Inl TypeError
      | PObj c a \<Rightarrow> Inl (ClientException ''The attribute does not exist in this object.'')
      | _ \<Rightarrow> Inl AttributeError)"

section \<open>api.py: the call layer\<close>

text \<open>
  The client object: the two constructor arguments and the header dictionary that
  \<open>MinuteDockCall.__init__\<close> builds from them.
\<close>

record client =
  api_key :: string
  account_id :: "string option"
  headers :: "(string \<times> string) list"

definition MinuteDockCall_init :: "string \<Rightarrow> string option \<Rightarrow> client" where
  "MinuteDockCall_init key acct =
     (case acct of
        None \<Rightarrow> \<lparr>api_key = key, account_id = acct, headers = [(''X-API-Key'', key)]\<rparr>
      | Some a \<Rightarrow>
          \<lparr>api_key = key, account_id = acct,
           headers = [(''X-API-Key'', key), (''X-Account-ID'', a)]\<rparr>)"

text \<open>
  What \<open>requests.request\<close> is called with, and what the code reads from its response:
  the status (through \<open>raise_for_status\<close>) and the decoded body (\<open>json()\<close>, which
  raises on a body that is not JSON).
\<close>

record http_request =
  req_method :: string
  req_url :: string
  req_headers :: "(string \<times> string) list"
  req_data :: "string option"

record http_response =
  status_code :: nat
  json :: "error + pyval"

text \<open>
  The collaborators that are not code of this repository, and the constant of the missing
  \<open>constants.py\<close>: the parsed \<open>BASE_URL\<close>, \<open>urllib.parse.urlencode\<close>,
  \<open>json.dumps\<close> (which raises on a value it cannot serialise) and
  \<open>requests.request\<close> (which raises when the transport fails).
\<close>

record lib =
  BASE_URL :: url_parts
  urlencode :: "pydict \<Rightarrow> string"
  json_dumps :: "pydict \<Rightarrow> error + string"
  request :: "http_request \<Rightarrow> error + http_response"

text \<open>
  \<open>Response.raise_for_status\<close> of the HTTP library raises \<open>HTTPError\<close> for a client
  error (4xx) or a server error (5xx) status, and returns for every other status.
\<close>

definition raise_for_status :: "http_response \<Rightarrow> error option" where
  "raise_for_status r =
     (if 400 \<le> status_code r \<and> status_code r < 600 then Some (HTTPError (status_code r))
      else None)"

text \<open>
  The state a call runs in: the client object, whose header dictionary the calls share,
  and the requests handed to the transport so far.
\<close>

record world =
  self :: client
  wire :: "http_request list"

text \<open>
  \<open>MinuteDockCall.__remove_none_values\<close>: copy the dictionary, pop every key whose
  value is \<open>None\<close>, and return the JSON text of what is left.
\<close>

definition remove_none_values :: "lib \<Rightarrow> pydict \<Rightarrow> error + string" where
  "remove_none_values l data =
     json_dumps l
       (fold (\<lambda>(key, v) d. if v = PNone then AList.delete key d else d) data data)"

text \<open>
  \<open>MinuteDockCall._make_request\<close>. \<open>request_headers = self.headers\<close> names the
  client's own dictionary, so the assignment of \<open>Content-Type\<close> is an update of
  \<open>self.headers\<close>. An \<open>HTTPError\<close> from the request or from \<open>raise_for_status\<close>
  becomes \<open>SystemExit\<close>; any other exception propagates.
\<close>

definition make_request ::
  "lib \<Rightarrow> string \<Rightarrow> string \<Rightarrow> pydict option
     \<Rightarrow> world \<Rightarrow> (error + pyval) \<times> world" where
  "make_request l mth pth payload w =
     (case (case payload of
              None \<Rightarrow> Inr (None, w)
            | Some p \<Rightarrow>
                (case remove_none_values l p of
                   Inl e \<Rightarrow> Inl e
                 | Inr body \<Rightarrow>
                     Inr (Some body,
                          w\<lparr>self := (self w)\<lparr>headers :=
                               AList.update ''Content-Type'' ''application/json''
                                 (headers (self w))\<rparr>\<rparr>))) of
        Inl e \<Rightarrow> (Inl e, w)
      | Inr (request_payload, w1) \<Rightarrow>
          (let req = \<lparr>req_method = mth, req_url = pth,
                      req_headers = headers (self w1), req_data = request_payload\<rparr>;
               w2 = w1\<lparr>wire := wire w1 @ [req]\<rparr>
           in (case request l req of
                 Inl (HTTPError st) \<Rightarrow> (Inl (SystemExit (HTTPError st)), w2)
               | Inl e \<Rightarrow> (Inl e, w2)
               | Inr md_response \<Rightarrow>
                   (case raise_for_status md_response of
                      Some e \<Rightarrow> (Inl (SystemExit e), w2)
                    | None \<Rightarrow> (json md_response, w2)))))"

text \<open>\<open>MinuteDockCall._handle_response\<close>.\<close>

definition handle_response :: "model_cls \<Rightarrow> pyval \<Rightarrow> error + pyval" where
  "handle_response cls response = create_from_dict cls response []"

text \<open>
  The keyword arguments of \<open>_get\<close>, \<open>_post\<close> and \<open>_put\<close>: the keys that the facade
  passes or that the three methods read with \<open>kwargs.get(key, None)\<close>.
\<close>

record call_kwargs =
  kw_path :: "string option"
  kw_path_var :: "path_var option"
  kw_id :: "path_var option"
  kw_params :: "pydict option"
  kw_payload :: "pydict option"

definition no_kwargs :: call_kwargs where
  "no_kwargs = \<lparr>kw_path = None, kw_path_var = None, kw_id = None, kw_params = None,
                 kw_payload = None\<rparr>"

text \<open>\<open>MinuteDockCall._get\<close>: reads \<open>path\<close>, \<open>path_var\<close> and \<open>params\<close>.\<close>

definition call_get :: "lib \<Rightarrow> model_cls \<Rightarrow> call_kwargs \<Rightarrow> world \<Rightarrow> (error + pyval) \<times> world" where
  "call_get l cls kwargs w =
     (case api_url (urlencode l) (BASE_URL l) (kw_path kwargs) (kw_path_var kwargs)
             (kw_params kwargs) of
        Inl e \<Rightarrow> (Inl e, w)
      | Inr u \<Rightarrow>
          (case make_request l ''GET'' u None w of
             (Inl e, w1) \<Rightarrow> (Inl e, w1)
           | (Inr md_response, w1) \<Rightarrow> (handle_response cls md_response, w1)))"

text \<open>\<open>MinuteDockCall._post\<close>: reads \<open>path\<close>, \<open>path_var\<close> and \<open>payload\<close>.\<close>

definition call_post :: "lib \<Rightarrow> model_cls \<Rightarrow> call_kwargs \<Rightarrow> world \<Rightarrow> (error + pyval) \<times> world" where
  "call_post l cls kwargs w =
     (case api_url (urlencode l) (BASE_URL l) (kw_path kwargs) (kw_path_var kwargs) None of
        Inl e \<Rightarrow> (Inl e, w)
      | Inr u \<Rightarrow>
          (case make_request l ''POST'' u (kw_payload kwargs) w of
             (Inl e, w1) \<Rightarrow> (Inl e, w1)
           | (Inr md_response, w1) \<Rightarrow> (handle_response cls md_response, w1)))"

text \<open>\<open>MinuteDockCall._put\<close>: reads \<open>path\<close>, \<open>id\<close> and \<open>payload\<close>.\<close>

definition call_put :: "lib \<Rightarrow> model_cls \<Rightarrow> call_kwargs \<Rightarrow> world \<Rightarrow> (error + pyval) \<times> world" where
  "call_put l cls kwargs w =
     (case api_url (urlencode l) (BASE_URL l) (kw_path kwargs) (kw_id kwargs) None of
        Inl e \<Rightarrow> (Inl e, w)
      | Inr u \<Rightarrow>
          (case make_request l ''PUT'' u (kw_payload kwargs) w of
             (Inl e, w1) \<Rightarrow> (Inl e, w1)
           | (Inr md_response, w1) \<Rightarrow> (handle_response cls md_response, w1)))"

section \<open>api.py: the facade\<close>

text \<open>The endpoint table of \<open>endpoints.py\<close>.\<close>

definition API_PATH :: "string \<Rightarrow> string option" where
  "API_PATH = map_of
     [(''users'', ''/api/v1/users''),
      (''current_user'', ''/api/v1/users/me''),
      (''accounts'', ''/api/v1/accounts''),
      (''current_account'', ''/api/v1/accounts/current''),
      (''contacts'', ''/api/v1/contacts''),
      (''projects'', ''/api/v1/projects''),
      (''tasks'', ''/api/v1/tasks''),
      (''current_entry'', ''/api/v1/entries/current''),
      (''entries'', ''/api/v1/entries''),
      (''dock'', ''/api/v1/dock''),
      (''reports'', ''/api/v1/reports/generate'')]"

text \<open>
  The methods of \<open>MinuteDock\<close> that fetch one resource by id and those that submit
  caller parameters. Each passes its keyword arguments under the names the source uses;
  the Python parameter \<open>id\<close> is written \<open>id'\<close>. An argument left at its default is
  passed by the caller as that default.
\<close>

definition get_report ::
  "lib \<Rightarrow> pyval \<Rightarrow> pyval \<Rightarrow> pyval \<Rightarrow> pyval
     \<Rightarrow> pyval \<Rightarrow> pyval \<Rightarrow> pyval \<Rightarrow> pyval
     \<Rightarrow> pyval \<Rightarrow> pyval \<Rightarrow> pyval \<Rightarrow> world
     \<Rightarrow> (error + pyval) \<times> world" where
  "get_report l users contacts projects tasks billable_only unbillable_only invoiced_only
       uninvoiced_only date_from date_to task_detail w =
     call_post l Report
       (no_kwargs\<lparr>kw_path := API_PATH ''reports'',
          kw_params := Some
            [(''users'', users), (''contacts'', contacts), (''projects'', projects),
             (''tasks'', tasks), (''billable_only'', billable_only),
             (''unbillable_only'', unbillable_only), (''invoiced_only'', invoiced_only),
             (''uninvoiced_only'', uninvoiced_only), (''from'', date_from),
             (''to'', date_to), (''task_detail'', task_detail)]\<rparr>) w"

definition get_contact :: "lib \<Rightarrow> int \<Rightarrow> world \<Rightarrow> (error + pyval) \<times> world" where
  "get_contact l id' w =
     call_get l Contact
       (no_kwargs\<lparr>kw_path_var := Some (IntVar id'), kw_path := API_PATH ''contacts''\<rparr>) w"

definition create_contact ::
  "lib \<Rightarrow> pyval \<Rightarrow> pyval \<Rightarrow> pyval \<Rightarrow> pyval
     \<Rightarrow> pyval \<Rightarrow> pyval \<Rightarrow> pyval \<Rightarrow> pyval
     \<Rightarrow> pyval \<Rightarrow> pyval \<Rightarrow> world
     \<Rightarrow> (error + pyval) \<times> world" where
  "create_contact l id' budget_type budget_frequency budget_target budget_progress
       default_rate_dollars pinned name short_code active w =
     call_post l Contact
       (no_kwargs\<lparr>kw_path := API_PATH ''contacts'',
          kw_params := Some
            [(''id'', id'), (''budget_type'', budget_type),
             (''budget_frequency'', budget_frequency),
             (''budget_target'', budget_target), (''budget_progress'', budget_progress),
             (''default_rate_dollars'', default_rate_dollars), (''pinned'', pinned),
             (''name'', name), (''short_code'', short_code), (''active'', active)]\<rparr>) w"

definition update_contact ::
  "lib \<Rightarrow> int \<Rightarrow> pyval \<Rightarrow> pyval \<Rightarrow> pyval
     \<Rightarrow> pyval \<Rightarrow> pyval \<Rightarrow> pyval \<Rightarrow> pyval
     \<Rightarrow> pyval \<Rightarrow> pyval \<Rightarrow> world
     \<Rightarrow> (error + pyval) \<times> world" where
  "update_contact l id' budget_type budget_frequency budget_target budget_progress
       default_rate_dollars pinned name short_code active w =
     call_put l Contact
       (no_kwargs\<lparr>kw_path_var := Some (IntVar id'), kw_path := API_PATH ''contacts'',
          kw_params := Some
            [(''id'', PInt id'), (''budget_type'', budget_type),
             (''budget_frequency'', budget_frequency),
             (''budget_target'', budget_target), (''budget_progress'', budget_progress),
             (''default_rate_dollars'', default_rate_dollars), (''pinned'', pinned),
             (''name'', name), (''short_code'', short_code), (''active'', active)]\<rparr>) w"

definition get_project :: "lib \<Rightarrow> int \<Rightarrow> world \<Rightarrow> (error + pyval) \<times> world" where
  "get_project l id' w =
     call_get l Project
       (no_kwargs\<lparr>kw_path_var := Some (IntVar id'), kw_path := API_PATH ''projects''\<rparr>) w"

definition create_project ::
  "lib \<Rightarrow> pyval \<Rightarrow> pyval \<Rightarrow> pyval \<Rightarrow> pyval
     \<Rightarrow> pyval \<Rightarrow> pyval \<Rightarrow> pyval \<Rightarrow> pyval
     \<Rightarrow> pyval \<Rightarrow> pyval \<Rightarrow> pyval \<Rightarrow> pyval
     \<Rightarrow> pyval \<Rightarrow> world
     \<Rightarrow> (error + pyval) \<times> world" where
  "create_project l id' budget_type budget_frequency budget_target budget_progress
       default_rate_dollars pinned name contact_id short_code active hidden description w =
     call_post l Project
       (no_kwargs\<lparr>kw_path := API_PATH ''projects'',
          kw_params := Some
            [(''id'', id'), (''budget_type'', budget_type),
             (''budget_frequency'', budget_frequency),
             (''budget_target'', budget_target), (''budget_progress'', budget_progress),
             (''default_rate_dollars'', default_rate_dollars), (''pinned'', pinned),
             (''name'', name), (''contact_id'', contact_id),
             (''short_code'', short_code), (''active'', active), (''hidden'', hidden),
             (''description'', description)]\<rparr>) w"

definition update_project ::
  "lib \<Rightarrow> int \<Rightarrow> pyval \<Rightarrow> pyval \<Rightarrow> pyval
     \<Rightarrow> pyval \<Rightarrow> pyval \<Rightarrow> pyval \<Rightarrow> pyval
     \<Rightarrow> pyval \<Rightarrow> pyval \<Rightarrow> pyval \<Rightarrow> pyval
     \<Rightarrow> pyval \<Rightarrow> world
     \<Rightarrow> (error + pyval) \<times> world" where
  "update_project l id' budget_type budget_frequency budget_target budget_progress
       default_rate_dollars pinned name contact_id short_code active hidden description w =
     call_put l Project
       (no_kwargs\<lparr>kw_path_var := Some (IntVar id'), kw_path := API_PATH ''projects'',
          kw_params := Some
            [(''id'', PInt id'), (''budget_type'', budget_type),
             (''budget_frequency'', budget_frequency),
             (''budget_target'', budget_target), (''budget_progress'', budget_progress),
             (''default_rate_dollars'', default_rate_dollars), (''pinned'', pinned),
             (''name'', name), (''contact_id'', contact_id),
             (''short_code'', short_code), (''active'', active), (''hidden'', hidden),
             (''description'', description)]\<rparr>) w"

definition get_task :: "lib \<Rightarrow> int \<Rightarrow> world \<Rightarrow> (error + pyval) \<times> world" where
  "get_task l id' w =
     call_get l Task
       (no_kwargs\<lparr>kw_id := Some (IntVar id'), kw_path := API_PATH ''tasks''\<rparr>) w"

definition create_task ::
  "lib \<Rightarrow> pyval \<Rightarrow> pyval \<Rightarrow> pyval \<Rightarrow> pyval
     \<Rightarrow> pyval \<Rightarrow> pyval \<Rightarrow> pyval \<Rightarrow> pyval
     \<Rightarrow> pyval \<Rightarrow> pyval \<Rightarrow> pyval \<Rightarrow> pyval
     \<Rightarrow> pyval \<Rightarrow> world
     \<Rightarrow> (error + pyval) \<times> world" where
  "create_task l id' budget_type budget_frequency budget_target budget_progress
       default_rate_dollars pinned name contact_id short_code active hidden description w =
     call_post l Task
       (no_kwargs\<lparr>kw_path := API_PATH ''tasks'',
          kw_params := Some
            [(''id'', id'), (''budget_type'', budget_type),
             (''budget_frequency'', budget_frequency),
             (''budget_target'', budget_target), (''budget_progress'', budget_progress),
             (''default_rate_dollars'', default_rate_dollars), (''pinned'', pinned),
             (''name'', name), (''contact_id'', contact_id),
             (''short_code'', short_code), (''active'', active), (''hidden'', hidden),
             (''description'', description)]\<rparr>) w"

definition update_task ::
  "lib \<Rightarrow> int \<Rightarrow> pyval \<Rightarrow> pyval \<Rightarrow> pyval
     \<Rightarrow> pyval \<Rightarrow> pyval \<Rightarrow> pyval \<Rightarrow> pyval
     \<Rightarrow> pyval \<Rightarrow> pyval \<Rightarrow> pyval \<Rightarrow> pyval
     \<Rightarrow> pyval \<Rightarrow> world
     \<Rightarrow> (error + pyval) \<times> world" where
  "update_task l id' budget_type budget_frequency budget_target budget_progress
       default_rate_dollars pinned name contact_id short_code active hidden description w =
     call_put l Task
       (no_kwargs\<lparr>kw_path_var := Some (IntVar id'), kw_path := API_PATH ''tasks'',
          kw_params := Some
            [(''id'', PInt id'), (''budget_type'', budget_type),
             (''budget_frequency'', budget_frequency),
             (''budget_target'', budget_target), (''budget_progress'', budget_progress),
             (''default_rate_dollars'', default_rate_dollars), (''pinned'', pinned),
             (''name'', name), (''contact_id'', contact_id),
             (''short_code'', short_code), (''active'', active), (''hidden'', hidden),
             (''description'', description)]\<rparr>) w"

definition create_time_entry ::
  "lib \<Rightarrow> pyval \<Rightarrow> pyval \<Rightarrow> pyval \<Rightarrow> pyval
     \<Rightarrow> pyval \<Rightarrow> pyval \<Rightarrow> pyval \<Rightarrow> pyval
     \<Rightarrow> pyval \<Rightarrow> world
     \<Rightarrow> (error + pyval) \<times> world" where
  "create_time_entry l id' account_id' description duration contact_id project_id task_ids
       invoice_id logged_at w =
     call_post l TimeEntry
       (no_kwargs\<lparr>kw_path := API_PATH ''entries'',
          kw_payload := Some
            [(''id'', id'), (''account_id'', account_id'),
             (''description'', description), (''duration'', duration),
             (''contact_id'', contact_id), (''project_id'', project_id),
             (''task_ids'', task_ids), (''invoice_id'', invoice_id),
             (''logged_at'', logged_at)]\<rparr>) w"

definition update_time_entry ::
  "lib \<Rightarrow> int \<Rightarrow> pyval \<Rightarrow> pyval \<Rightarrow> pyval
     \<Rightarrow> pyval \<Rightarrow> pyval \<Rightarrow> pyval \<Rightarrow> pyval
     \<Rightarrow> pyval \<Rightarrow> world
     \<Rightarrow> (error + pyval) \<times> world" where
  "update_time_entry l id' account_id' description duration contact_id project_id task_ids
       invoice_id logged_at w =
     call_put l TimeEntry
       (no_kwargs\<lparr>kw_path_var := Some (IntVar id'), kw_path := API_PATH ''entries'',
          kw_payload := Some
            [(''id'', PInt id'), (''account_id'', account_id'),
             (''description'', description), (''duration'', duration),
             (''contact_id'', contact_id), (''project_id'', project_id),
             (''task_ids'', task_ids), (''invoice_id'', invoice_id),
             (''logged_at'', logged_at)]\<rparr>) w"

section \<open>Fixtures for evaluating the call layer\<close>

text \<open>
  A base URL made of a scheme and an authority only, as a host constant is.
\<close>

definition bare_authority :: "url_parts \<Rightarrow> bool" where
  "bare_authority u \<longleftrightarrow>
     scheme u \<noteq> [] \<and> netloc u \<noteq> [] \<and> params u = [] \<and> query u = [] \<and> fragment u = []"

text \<open>
  A concrete environment for running calls: a base host, a transport that answers every
  request with one given response, and placeholder encoders that return the keys of the
  dictionary they are given. The stub response carries a JSON object with one field.
\<close>

definition stub_base :: url_parts where
  "stub_base = \<lparr>scheme = ''https'', netloc = ''minutedock.com'', path = [], params = [],
                 query = [], fragment = []\<rparr>"

definition mixed_case_base :: url_parts where
  "mixed_case_base = \<lparr>scheme = ''https'', netloc = ''MinuteDock.com'', path = [],
                       params = [], query = [], fragment = []\<rparr>"

definition stub_lib :: "http_response \<Rightarrow> lib" where
  "stub_lib resp = \<lparr>BASE_URL = stub_base, urlencode = (\<lambda>ps. concat (map fst ps)),
                     json_dumps = (\<lambda>d. Inr (concat (map fst d))),
                     request = (\<lambda>r. Inr resp)\<rparr>"

definition stub_response :: "nat \<Rightarrow> http_response" where
  "stub_response st = \<lparr>status_code = st, json = Inr (PDict [(''id'', PInt 7)])\<rparr>"

definition stub_world :: world where
  "stub_world = \<lparr>self = MinuteDockCall_init ''key'' None, wire = []\<rparr>"

definition stub_request :: http_request where
  "stub_request = \<lparr>req_method = ''GET'', req_url = ''https://minutedock.com/api/v1/users/me'',
                    req_headers = [(''X-API-Key'', ''key'')], req_data = None\<rparr>"

text \<open>
  Instances for evaluating the record layer: a contact decoded with \<open>active\<close> false, a
  contact whose name is an account with no field set, a contact whose name is an empty
  set, and a contact with a name.
\<close>

definition falsy_contact :: pydict where
  "falsy_contact = init Contact [(''active'', PBool False)]"

definition nested_contact :: pydict where
  "nested_contact = init Contact [(''name'', PObj Account (init Account []))]"

definition set_contact :: pydict where
  "set_contact = init Contact [(''name'', PSet [])]"

definition named_contact :: pydict where
  "named_contact = init Contact [(''name'', PStr ''ACME''), (''active'', PBool False)]"

lemmas stub_defs = stub_base_def stub_lib_def stub_response_def stub_world_def
  MinuteDockCall_init_def

lemmas call_defs = call_get_def call_post_def call_put_def make_request_def api_url_def
  geturl_def urlunsplit_def lower_def lower_char_def upper_case_def no_kwargs_def API_PATH_def
  raise_for_status_def handle_response_def remove_none_values_def

section \<open>The URL builder\<close>

text \<open>
  C8. Without a path the URL builder raises \<open>ClientException\<close>: it returns no URL and
  does not exit. Through each of the three dispatchers the exception reaches the caller
  before any request is made, and the client is unchanged.
\<close>

theorem api_url_no_path:
  "api_url enc base None pvar prms = Inl (ClientException ''path must not be None.'')
   \<and> call_get l cls (kwargs\<lparr>kw_path := None\<rparr>) w =
       (Inl (ClientException ''path must not be None.''), w)
   \<and> call_post l cls (kwargs\<lparr>kw_path := None\<rparr>) w =
       (Inl (ClientException ''path must not be None.''), w)
   \<and> call_put l cls (kwargs\<lparr>kw_path := None\<rparr>) w =
       (Inl (ClientException ''path must not be None.''), w)"
  by (simp add: api_url_def call_get_def call_post_def call_put_def)

lemma lower_char_not_upper: "\<not> upper_case (lower_char c)"
proof -
  have "(of_char c :: nat) < 256" by simp
  then show ?thesis
    by (auto simp: lower_char_def upper_case_def)
qed

lemma lower_no_upper: "list_all (\<lambda>c. \<not> upper_case c) (lower s)"
  by (simp add: lower_def list_all_iff lower_char_not_upper)

text \<open>
  C7. For a base that is a scheme and an authority, a path and a path variable, the URL
  is the lower-cased concatenation of the base, the path (with a leading slash added when
  it has none), a slash and the path variable, followed by \<open>?\<close> and the encoded query
  when parameters are given (an encoding that is empty, as for an empty dictionary, adds
  nothing). No upper-case character is left in the URL: the path \<open>/API/V1/Contacts\<close>
  with the variable \<open>Start\<close> gives a URL that ends in \<open>/api/v1/contacts/start\<close>.
  With the path \<open>/api/v1/contacts\<close> and the variable 42 the URL ends in
  \<open>/api/v1/contacts/42\<close>.
\<close>

theorem api_url_builds:
  assumes "bare_authority base"
  shows "api_url enc base (Some p) (Some v) prms =
           Inr (lower (scheme base @ ''://'' @ netloc base
                       @ (if p = [] \<or> take 1 p = ''/'' then p else ''/'' @ p)
                       @ ''/'' @ str_path_var v
                       @ (case prms of None \<Rightarrow> []
                          | Some ps \<Rightarrow> if enc ps = [] then [] else ''?'' @ enc ps)))
       \<and> (case api_url enc base (Some p) (Some v) prms of
            Inl e \<Rightarrow> False
          | Inr url \<Rightarrow> list_all (\<lambda>c. \<not> upper_case c) url)
       \<and> api_url enc base (Some ''/API/V1/Contacts'') (Some (StrVar ''Start'')) None =
           Inr (lower (scheme base @ ''://'' @ netloc base) @ ''/api/v1/contacts/start'')
       \<and> api_url enc base (Some ''/api/v1/contacts'') (Some (IntVar 42)) None =
           Inr (lower (scheme base @ ''://'' @ netloc base) @ ''/api/v1/contacts/42'')"
proof -
  have url: "api_url enc base (Some p) (Some v) prms =
           Inr (lower (scheme base @ ''://'' @ netloc base
                       @ (if p = [] \<or> take 1 p = ''/'' then p else ''/'' @ p)
                       @ ''/'' @ str_path_var v
                       @ (case prms of None \<Rightarrow> []
                          | Some ps \<Rightarrow> if enc ps = [] then [] else ''?'' @ enc ps)))"
    using assms
    by (cases p; cases prms)
       (auto simp: bare_authority_def api_url_def geturl_def urlunsplit_def Let_def)
  have "case api_url enc base (Some p) (Some v) prms of
            Inl e \<Rightarrow> False
          | Inr url \<Rightarrow> list_all (\<lambda>c. \<not> upper_case c) url"
    unfolding url by (simp add: lower_no_upper)
  moreover have "api_url enc base (Some ''/API/V1/Contacts'') (Some (StrVar ''Start'')) None =
           Inr (lower (scheme base @ ''://'' @ netloc base) @ ''/api/v1/contacts/start'')"
    using assms
    by (simp add: bare_authority_def api_url_def geturl_def urlunsplit_def Let_def
        lower_def lower_char_def upper_case_def char_of_def bit_Suc_0_iff)
  moreover have "api_url enc base (Some ''/api/v1/contacts'') (Some (IntVar 42)) None =
           Inr (lower (scheme base @ ''://'' @ netloc base) @ ''/api/v1/contacts/42'')"
    using assms
    by (simp add: bare_authority_def api_url_def geturl_def urlunsplit_def Let_def
        str_int_def digits.simps lower_def lower_char_def upper_case_def)
  ultimately show ?thesis using url by simp
qed

theorem api_url_builds_witness:
  "bare_authority mixed_case_base \<and>
   api_url (\<lambda>ps. ''Active=True'') mixed_case_base
       (Some (''/API/v1/Contacts/'' @ [CHR 0xC9, CHR 0xD7])) (Some (IntVar 42))
       (Some [(''active'', PBool True)]) =
     Inr (''https://minutedock.com/api/v1/contacts/'' @ [CHR 0xE9, CHR 0xD7]
          @ ''/42?active=true'')"
  using api_url_builds[of mixed_case_base "\<lambda>ps. ''Active=True''"
      "''/API/v1/Contacts/'' @ [CHR 0xC9, CHR 0xD7]" "IntVar 42"
      "Some [(''active'', PBool True)]"]
  by (simp add: bare_authority_def mixed_case_base_def str_int_def digits.simps lower_def
      lower_char_def upper_case_def char_of_def bit_Suc_0_iff)

section \<open>The facade and the dispatchers\<close>

text \<open>
  C9. \<open>get_task\<close> passes the id under the keyword \<open>id\<close>, which \<open>_get\<close> does not
  read: for every id the call is the one for the bare tasks path, and the request for
  id 7 goes to \<open>/api/v1/tasks\<close>, where \<open>get_contact\<close> goes to
  \<open>/api/v1/contacts/7\<close>.
\<close>

theorem get_task_drops_id:
  "get_task l i w = call_get l Task (no_kwargs\<lparr>kw_path := Some ''/api/v1/tasks''\<rparr>) w
   \<and> wire (snd (get_task (stub_lib (stub_response 200)) 7 stub_world)) =
       [\<lparr>req_method = ''GET'', req_url = ''https://minutedock.com/api/v1/tasks'',
         req_headers = [(''X-API-Key'', ''key'')], req_data = None\<rparr>]
   \<and> wire (snd (get_contact (stub_lib (stub_response 200)) 7 stub_world)) =
       [\<lparr>req_method = ''GET'', req_url = ''https://minutedock.com/api/v1/contacts/7'',
         req_headers = [(''X-API-Key'', ''key'')], req_data = None\<rparr>]"
proof -
  have "get_task l i w = call_get l Task (no_kwargs\<lparr>kw_path := Some ''/api/v1/tasks''\<rparr>) w"
    by (simp add: get_task_def call_get_def no_kwargs_def API_PATH_def)
  moreover have "wire (snd (get_task (stub_lib (stub_response 200)) 7 stub_world)) =
       [\<lparr>req_method = ''GET'', req_url = ''https://minutedock.com/api/v1/tasks'',
         req_headers = [(''X-API-Key'', ''key'')], req_data = None\<rparr>]"
    by (simp add: get_task_def call_defs stub_defs)
  moreover have "wire (snd (get_contact (stub_lib (stub_response 200)) 7 stub_world)) =
       [\<lparr>req_method = ''GET'', req_url = ''https://minutedock.com/api/v1/contacts/7'',
         req_headers = [(''X-API-Key'', ''key'')], req_data = None\<rparr>]"
    by (simp add: get_contact_def call_defs stub_defs str_int_def digits.simps)
  ultimately show ?thesis by simp
qed

text \<open>
  C1. A call with a payload writes \<open>Content-Type\<close> into the client's own header
  dictionary: after \<open>create_time_entry\<close>, the request of a following \<open>get_contact\<close>,
  which has no body, carries \<open>Content-Type: application/json\<close> too.
\<close>

theorem content_type_sticks:
  "wire (snd (get_contact (stub_lib (stub_response 200)) 7
           (snd (create_time_entry (stub_lib (stub_response 200))
                   PNone PNone (PStr ''call'') (PInt 60) PNone PNone PNone PNone PNone
                   stub_world)))) =
     [\<lparr>req_method = ''POST'', req_url = ''https://minutedock.com/api/v1/entries'',
       req_headers = [(''X-API-Key'', ''key''), (''Content-Type'', ''application/json'')],
       req_data = Some ''descriptionduration''\<rparr>,
      \<lparr>req_method = ''GET'', req_url = ''https://minutedock.com/api/v1/contacts/7'',
       req_headers = [(''X-API-Key'', ''key''), (''Content-Type'', ''application/json'')],
       req_data = None\<rparr>]"
  by (simp add: get_contact_def create_time_entry_def call_defs stub_defs str_int_def
      digits.simps)

text \<open>
  C2. \<open>create_contact\<close> passes its parameter set under the keyword \<open>params\<close>, which
  \<open>_post\<close> does not read: whatever the arguments, the call is the one for the bare
  contacts path with no payload, and the request for a contact named ACME has no body.
\<close>

theorem create_contact_sends_no_body:
  "create_contact l id' budget_type budget_frequency budget_target budget_progress
       default_rate_dollars pinned name short_code active w =
     call_post l Contact (no_kwargs\<lparr>kw_path := Some ''/api/v1/contacts''\<rparr>) w
   \<and> wire (snd (create_contact (stub_lib (stub_response 200)) PNone PNone PNone PNone PNone
                   PNone PNone (PStr ''ACME'') PNone PNone stub_world)) =
       [\<lparr>req_method = ''POST'', req_url = ''https://minutedock.com/api/v1/contacts'',
         req_headers = [(''X-API-Key'', ''key'')], req_data = None\<rparr>]"
proof -
  have "create_contact l id' budget_type budget_frequency budget_target budget_progress
       default_rate_dollars pinned name short_code active w =
     call_post l Contact (no_kwargs\<lparr>kw_path := Some ''/api/v1/contacts''\<rparr>) w"
    by (simp add: create_contact_def call_post_def no_kwargs_def API_PATH_def
        split: sum.split)
  moreover have "wire (snd (create_contact (stub_lib (stub_response 200)) PNone PNone PNone
                   PNone PNone PNone PNone (PStr ''ACME'') PNone PNone stub_world)) =
       [\<lparr>req_method = ''POST'', req_url = ''https://minutedock.com/api/v1/contacts'',
         req_headers = [(''X-API-Key'', ''key'')], req_data = None\<rparr>]"
    by (simp add: create_contact_def call_defs stub_defs)
  ultimately show ?thesis by simp
qed

section \<open>HTTP status handling\<close>

lemma make_request_sent:
  assumes "make_request l mth u payload w = (res, w')" and "wire w' = wire w @ [req]"
  shows "res = (case request l req of
                  Inl (HTTPError st) \<Rightarrow> Inl (SystemExit (HTTPError st))
                | Inl e \<Rightarrow> Inl e
                | Inr md_response \<Rightarrow>
                    (case raise_for_status md_response of
                       Some e \<Rightarrow> Inl (SystemExit e)
                     | None \<Rightarrow> json md_response))"
  using assms
  by (auto simp: make_request_def Let_def split: option.splits sum.splits error.splits)

text \<open>
  C4, as stated, fails: a response with status 304 is not a success status, and
  \<open>raise_for_status\<close> does not raise for it, so \<open>get_contact\<close> returns an entity.
\<close>

theorem non_2xx_returns_entity:
  "\<not> (200 \<le> status_code (stub_response 304) \<and> status_code (stub_response 304) < 300)
   \<and> fst (get_contact (stub_lib (stub_response 304)) 7 stub_world) =
       Inr (PObj Contact (init Contact [(''id'', PInt 7)]))"
  by (simp add: get_contact_def call_defs stub_defs str_int_def digits.simps
      create_from_dict_def no_self_key_def)

text \<open>
  C4, amended. For every request that the dispatcher executes and that gets a response:
  when the status is 4xx or 5xx the result is \<open>SystemExit\<close> around the \<open>HTTPError\<close>
  of that status, and nothing else is returned; for any other status the result is the
  decoded body (or the decoding error). Each dispatcher hands a decoded body to
  \<open>_create_from_dict\<close> of the class the caller named.
\<close>

theorem make_request_status:
  assumes "make_request l mth u payload w = (res, w')"
    and "wire w' = wire w @ [req]"
    and "request l req = Inr resp"
  shows "(400 \<le> status_code resp \<and> status_code resp < 600 \<longrightarrow>
            res = Inl (SystemExit (HTTPError (status_code resp))))
       \<and> (\<not> (400 \<le> status_code resp \<and> status_code resp < 600) \<longrightarrow> res = json resp)
       \<and> fst (call_get l cls kwargs w) =
           (case api_url (urlencode l) (BASE_URL l) (kw_path kwargs) (kw_path_var kwargs)
                   (kw_params kwargs) of
              Inl e \<Rightarrow> Inl e
            | Inr url \<Rightarrow>
                (case fst (make_request l ''GET'' url None w) of
                   Inl e \<Rightarrow> Inl e
                 | Inr body \<Rightarrow> create_from_dict cls body []))
       \<and> fst (call_post l cls kwargs w) =
           (case api_url (urlencode l) (BASE_URL l) (kw_path kwargs) (kw_path_var kwargs)
                   None of
              Inl e \<Rightarrow> Inl e
            | Inr url \<Rightarrow>
                (case fst (make_request l ''POST'' url (kw_payload kwargs) w) of
                   Inl e \<Rightarrow> Inl e
                 | Inr body \<Rightarrow> create_from_dict cls body []))
       \<and> fst (call_put l cls kwargs w) =
           (case api_url (urlencode l) (BASE_URL l) (kw_path kwargs) (kw_id kwargs) None of
              Inl e \<Rightarrow> Inl e
            | Inr url \<Rightarrow>
                (case fst (make_request l ''PUT'' url (kw_payload kwargs) w) of
                   Inl e \<Rightarrow> Inl e
                 | Inr body \<Rightarrow> create_from_dict cls body []))"
proof -
  have "res = (case raise_for_status resp of
                 Some e \<Rightarrow> Inl (SystemExit e) | None \<Rightarrow> json resp)"
    using make_request_sent[OF assms(1,2)] assms(3) by simp
  then have "(400 \<le> status_code resp \<and> status_code resp < 600 \<longrightarrow>
            res = Inl (SystemExit (HTTPError (status_code resp))))
       \<and> (\<not> (400 \<le> status_code resp \<and> status_code resp < 600) \<longrightarrow> res = json resp)"
    by (simp add: raise_for_status_def)
  moreover have "fst (call_get l cls kwargs w) =
           (case api_url (urlencode l) (BASE_URL l) (kw_path kwargs) (kw_path_var kwargs)
                   (kw_params kwargs) of
              Inl e \<Rightarrow> Inl e
            | Inr url \<Rightarrow>
                (case fst (make_request l ''GET'' url None w) of
                   Inl e \<Rightarrow> Inl e
                 | Inr body \<Rightarrow> create_from_dict cls body []))"
    by (simp add: call_get_def handle_response_def split: sum.split prod.split)
  moreover have "fst (call_post l cls kwargs w) =
           (case api_url (urlencode l) (BASE_URL l) (kw_path kwargs) (kw_path_var kwargs)
                   None of
              Inl e \<Rightarrow> Inl e
            | Inr url \<Rightarrow>
                (case fst (make_request l ''POST'' url (kw_payload kwargs) w) of
                   Inl e \<Rightarrow> Inl e
                 | Inr body \<Rightarrow> create_from_dict cls body []))"
    by (simp add: call_post_def handle_response_def split: sum.split prod.split)
  moreover have "fst (call_put l cls kwargs w) =
           (case api_url (urlencode l) (BASE_URL l) (kw_path kwargs) (kw_id kwargs) None of
              Inl e \<Rightarrow> Inl e
            | Inr url \<Rightarrow>
                (case fst (make_request l ''PUT'' url (kw_payload kwargs) w) of
                   Inl e \<Rightarrow> Inl e
                 | Inr body \<Rightarrow> create_from_dict cls body []))"
    by (simp add: call_put_def handle_response_def split: sum.split prod.split)
  ultimately show ?thesis by simp
qed

theorem make_request_status_witness:
  "make_request (stub_lib (stub_response 404)) ''GET''
       ''https://minutedock.com/api/v1/users/me'' None stub_world =
     (Inl (SystemExit (HTTPError 404)), stub_world\<lparr>wire := [stub_request]\<rparr>)
   \<and> wire (stub_world\<lparr>wire := [stub_request]\<rparr>) = wire stub_world @ [stub_request]
   \<and> request (stub_lib (stub_response 404)) stub_request = Inr (stub_response 404)
   \<and> 400 \<le> status_code (stub_response 404) \<and> status_code (stub_response 404) < 600"
proof -
  have h2: "wire (stub_world\<lparr>wire := [stub_request]\<rparr>) = wire stub_world @ [stub_request]"
    by (simp add: stub_world_def)
  have h3: "request (stub_lib (stub_response 404)) stub_request = Inr (stub_response 404)"
    by (simp add: stub_lib_def)
  obtain res w' where h1: "make_request (stub_lib (stub_response 404)) ''GET''
       ''https://minutedock.com/api/v1/users/me'' None stub_world = (res, w')"
    by (cases "make_request (stub_lib (stub_response 404)) ''GET''
       ''https://minutedock.com/api/v1/users/me'' None stub_world")
  have w': "w' = stub_world\<lparr>wire := [stub_request]\<rparr>"
    using h1 by (auto simp: make_request_def stub_defs stub_request_def Let_def
        raise_for_status_def)
  have st: "400 \<le> status_code (stub_response 404) \<and> status_code (stub_response 404) < 600"
    by (simp add: stub_response_def)
  have "res = Inl (SystemExit (HTTPError 404))"
    using make_request_status[OF h1 h2[folded w'] h3] st by (simp add: stub_response_def)
  with h1 w' h2 h3 st show ?thesis by simp
qed

section \<open>The record layer\<close>

subsection \<open>Fields, serialisation and equality\<close>

lemma distinct_defaults: "distinct (map fst (attribute_defaults cls))"
  by (cases cls) simp_all

lemma defaults_None: "(k, d) \<in> set (attribute_defaults cls) \<Longrightarrow> d = PNone"
  by (cases cls) auto

lemma instance_distinct: "instance_of cls a \<Longrightarrow> distinct (map fst a)"
  by (simp add: instance_of_def distinct_defaults)

lemma instance_init: "instance_of cls (init cls kw)"
  by (simp add: instance_of_def init_def case_prod_unfold comp_def)

lemma map_of_map_entry:
  "map_of (map (\<lambda>(k, d). (k, f k d)) xs) k = map_option (f k) (map_of xs k)"
  by (induction xs) auto

lemma map_of_init:
  "map_of (init cls kw) k =
     map_option (\<lambda>d. case map_of kw k of None \<Rightarrow> d | Some v \<Rightarrow> v)
       (map_of (attribute_defaults cls) k)"
  unfolding init_def
  by (rule map_of_map_entry[where f = "\<lambda>k d. case map_of kw k of None \<Rightarrow> d | Some v \<Rightarrow> v"])

lemma to_dict_Cons: "to_dict ((k, v) # rest) =
  (case to_dict_field v of None \<Rightarrow> to_dict rest | Some u \<Rightarrow> (k, u) # to_dict rest)"
  by (cases v) simp_all

lemma to_dict_keys: "(k, u) \<in> set (to_dict a) \<Longrightarrow> k \<in> fst ` set a"
proof (induction a)
  case Nil
  then show ?case by simp
next
  case (Cons kv a)
  obtain k' v where kv: "kv = (k', v)" by (cases kv)
  show ?case
  proof (cases "(k, u) \<in> set (to_dict a)")
    case True
    then show ?thesis using Cons.IH by simp
  next
    case False
    with Cons.prems kv have "k = k'"
      by (auto simp: to_dict_Cons split: option.splits)
    with kv show ?thesis by simp
  qed
qed

lemma map_of_to_dict:
  "distinct (map fst a) \<Longrightarrow> map_of (to_dict a) k = Option.bind (map_of a k) to_dict_field"
proof (induction a)
  case Nil
  then show ?case by simp
next
  case (Cons kv a)
  obtain k' v where kv: "kv = (k', v)" by (cases kv)
  have notin: "k' \<notin> fst ` set (to_dict a)"
    using Cons.prems to_dict_keys[of k' _ a] kv by auto
  then have "map_of (to_dict a) k' = None"
    by (simp add: map_of_eq_None_iff)
  with Cons kv show ?case
    by (auto simp: to_dict_Cons split: option.splits)
qed


lemma dict_entry_rel:
  "(case map_of d k of
      None \<Rightarrow> map_of e k = None
    | Some v \<Rightarrow> (case map_of e k of None \<Rightarrow> False | Some u \<Rightarrow> py_eq v u))
   \<longleftrightarrow> rel_option py_eq (map_of d k) (map_of e k)"
  by (cases "map_of d k"; cases "map_of e k") simp_all

lemma py_eq_dict:
  "py_eq (PDict d) (PDict e) \<longleftrightarrow> (\<forall>k. rel_option py_eq (map_of d k) (map_of e k))"
proof
  assume "py_eq (PDict d) (PDict e)"
  then have keys: "\<forall>k \<in> set (map fst d @ map fst e).
                     rel_option py_eq (map_of d k) (map_of e k)"
    by (simp add: dict_entry_rel list_all_iff)
  show "\<forall>k. rel_option py_eq (map_of d k) (map_of e k)"
  proof
    fix k
    show "rel_option py_eq (map_of d k) (map_of e k)"
    proof (cases "k \<in> set (map fst d @ map fst e)")
      case True
      with keys show ?thesis by blast
    next
      case False
      then have "map_of d k = None" and "map_of e k = None"
        by (auto simp: map_of_eq_None_iff)
      then show ?thesis by simp
    qed
  qed
next
  assume "\<forall>k. rel_option py_eq (map_of d k) (map_of e k)"
  then show "py_eq (PDict d) (PDict e)"
    by (simp add: dict_entry_rel list_all_iff)
qed

lemma py_eq_refl_bounded: "size v \<le> n \<Longrightarrow> py_eq v v"
proof (induction n arbitrary: v)
  case 0
  then show ?case by (cases v) auto
next
  case (Suc n)
  have elems: "list_all2 py_eq xs xs \<and> list_all (\<lambda>x. list_ex (\<lambda>y. py_eq x y) xs) xs
               \<and> list_all (\<lambda>y. list_ex (\<lambda>x. py_eq x y) xs) xs"
    if "size_list size xs \<le> n" for xs
  proof -
    have "py_eq x x" if "x \<in> set xs" for x
      using size_elem_le[OF that] \<open>size_list size xs \<le> n\<close> Suc.IH[of x] by simp
    then show ?thesis
      by (auto simp: list_all2_same list_all_iff list_ex_iff)
  qed
  have entries: "py_eq (PDict d) (PDict d)"
    if "size_list (size_prod (\<lambda>_. 0) size) d \<le> n" for d
  proof -
    have "rel_option py_eq (map_of d k) (map_of d k)" for k
    proof (cases "map_of d k")
      case None
      then show ?thesis by simp
    next
      case (Some u)
      then have "(k, u) \<in> set d" by (rule map_of_SomeD)
      then have "py_eq u u"
        using size_entry_le[of k u d] that Suc.IH[of u] by simp
      with Some show ?thesis by simp
    qed
    then show ?thesis by (simp only: py_eq_dict) simp
  qed
  show ?case
  proof (cases v)
    case (PList xs)
    with Suc.prems elems[of xs] show ?thesis by simp
  next
    case (PTuple xs)
    with Suc.prems elems[of xs] show ?thesis by simp
  next
    case (PSet xs)
    with Suc.prems elems[of xs] show ?thesis by simp
  next
    case (PDict d)
    with Suc.prems entries[of d] show ?thesis by simp
  next
    case (PObj c a)
    with Suc.prems have "size_list (size_prod (\<lambda>_. 0) size) a \<le> n" by simp
    then have "size_list (size_prod (\<lambda>_. 0) size) (to_dict a) \<le> n"
      using to_dict_size(1)[of a] by simp
    then have "py_eq (PDict (to_dict a)) (PDict (to_dict a))" by (rule entries)
    with PObj show ?thesis by simp
  qed auto
qed

lemma py_eq_refl: "py_eq v v"
  by (rule py_eq_refl_bounded[of v "size v"]) simp

lemma model_eq_maps:
  "model_eq a b \<longleftrightarrow>
     (\<forall>k. rel_option py_eq (map_of (to_dict b) k) (map_of (to_dict a) k))"
  by (simp only: model_eq_def py_eq_dict)


lemma map_of_defaults:
  "(key, dflt) \<in> set (attribute_defaults cls) \<Longrightarrow>
     map_of (attribute_defaults cls) key = Some dflt"
  using distinct_defaults[of cls] by simp

lemma create_from_list_dicts:
  "list_all no_self_key ds \<Longrightarrow>
     create_from_list cls (map PDict ds) = Inr (map (\<lambda>d. PObj cls (init cls d)) ds)"
  by (induction ds) simp_all

lemma self_not_declared: "''self'' \<notin> fst ` set (attribute_defaults cls)"
  by (cases cls) auto

lemma no_self_key_to_dict: "instance_of cls a \<Longrightarrow> no_self_key (to_dict a)"
proof -
  assume inst: "instance_of cls a"
  have "fst ` set a = fst ` set (attribute_defaults cls)"
    using inst unfolding instance_of_def by (metis set_map)
  then have "''self'' \<notin> fst ` set a"
    using self_not_declared[of cls] by simp
  then have "''self'' \<notin> fst ` set (to_dict a)"
    using to_dict_keys[of "''self''" _ a] by auto
  then show ?thesis by (simp add: no_self_key_def)
qed

lemma instance_lookup:
  assumes "instance_of cls a"
  shows "(\<exists>v. map_of a key = Some v) \<longleftrightarrow> key \<in> fst ` set (attribute_defaults cls)"
proof -
  have "fst ` set a = fst ` set (attribute_defaults cls)"
    using assms unfolding instance_of_def by (metis set_map)
  then show ?thesis
    by (metis map_of_eq_None_iff not_Some_eq)
qed

lemma to_dict_objs_idem: "to_dict_objs (to_dict_objs xs) = to_dict_objs xs"
proof (induction xs)
  case Nil
  then show ?case by simp
next
  case (Cons x xs)
  then show ?case by (cases x) simp_all
qed

lemma to_dict_field_idem:
  assumes "to_dict_field v = Some u" and "\<And>c obj. v = PObj c obj \<Longrightarrow> to_dict obj \<noteq> []"
  shows "to_dict_field u = Some u"
  using assms by (cases v) (auto simp: to_dict_objs_idem split: if_splits)

subsection \<open>The record factory\<close>

text \<open>
  C5, as stated, fails: a decoded JSON object with a key \<open>self\<close> omits declared
  fields of \<open>Contact\<close>, and \<open>_create_from_dict\<close> raises \<open>TypeError\<close> for it,
  alone or as an element of a list, and produces no entity.
\<close>

theorem self_key_is_refused:
  "create_from_dict Contact (PDict [(''self'', PInt 1), (''name'', PStr ''ACME'')]) [] =
     Inl TypeError
   \<and> create_from_dict Contact
         (PList [PDict [(''name'', PStr ''ACME'')], PDict [(''self'', PInt 1)]]) [] =
       Inl TypeError"
  by (simp add: create_from_dict_def no_self_key_def)

text \<open>
  C5, amended. For every model class and every decoded JSON object that has no key
  \<open>self\<close>, \<open>_create_from_dict\<close> returns an instance of the class in which every
  declared field that the object omits has the declared default and every declared field
  that the object binds has the value bound. A list of such objects gives the list of the
  instances, in order, and \<open>None\<close> gives \<open>None\<close>.
\<close>

theorem create_from_dict_defaults:
  assumes "no_self_key d" and "list_all no_self_key ds"
  shows "\<exists>attrs. create_from_dict cls (PDict d) [] = Inr (PObj cls attrs)
      \<and> instance_of cls attrs
      \<and> (\<forall>(key, dflt) \<in> set (attribute_defaults cls).
            (key \<notin> fst ` set d \<longrightarrow> map_of attrs key = Some dflt)
          \<and> (\<forall>v. map_of d key = Some v \<longrightarrow> map_of attrs key = Some v))
      \<and> create_from_dict cls (PList (map PDict ds)) [] =
          Inr (PList (map (\<lambda>d. PObj cls (init cls d)) ds))
      \<and> create_from_dict cls PNone [] = Inr PNone"
proof (intro exI conjI)
  show "create_from_dict cls (PDict d) [] = Inr (PObj cls (init cls d))"
    using assms(1) by (simp add: create_from_dict_def)
  show "instance_of cls (init cls d)"
    by (rule instance_init)
  show "\<forall>(key, dflt) \<in> set (attribute_defaults cls).
            (key \<notin> fst ` set d \<longrightarrow> map_of (init cls d) key = Some dflt)
          \<and> (\<forall>v. map_of d key = Some v \<longrightarrow> map_of (init cls d) key = Some v)"
  proof (clarify, intro conjI impI allI)
    fix key dflt
    assume decl: "(key, dflt) \<in> set (attribute_defaults cls)"
    {
      assume "key \<notin> fst ` set d"
      then have "map_of d key = None" by (simp add: map_of_eq_None_iff)
      then show "map_of (init cls d) key = Some dflt"
        by (simp add: map_of_init map_of_defaults[OF decl])
    }
    {
      fix v
      assume "map_of d key = Some v"
      then show "map_of (init cls d) key = Some v"
        by (simp add: map_of_init map_of_defaults[OF decl])
    }
  qed
  show "create_from_dict cls (PList (map PDict ds)) [] =
          Inr (PList (map (\<lambda>d. PObj cls (init cls d)) ds))"
    using assms(2) by (simp add: create_from_dict_def create_from_list_dicts)
  show "create_from_dict cls PNone [] = Inr PNone"
    by (simp add: create_from_dict_def)
qed

theorem create_from_dict_defaults_witness:
  "no_self_key [(''name'', PStr ''ACME'')]
   \<and> list_all no_self_key [[(''id'', PInt 1)], []]
   \<and> (\<exists>attrs. create_from_dict Contact (PDict [(''name'', PStr ''ACME'')]) [] =
              Inr (PObj Contact attrs)
      \<and> (''id'', PNone) \<in> set (attribute_defaults Contact)
      \<and> ''id'' \<notin> fst ` set [(''name'', PStr ''ACME'')]
      \<and> map_of attrs ''id'' = Some PNone
      \<and> (''name'', PNone) \<in> set (attribute_defaults Contact)
      \<and> map_of [(''name'', PStr ''ACME'')] ''name'' = Some (PStr ''ACME'')
      \<and> map_of attrs ''name'' = Some (PStr ''ACME''))
   \<and> create_from_dict Contact (PList [PDict [(''id'', PInt 1)], PDict []]) [] =
       Inr (PList [PObj Contact (init Contact [(''id'', PInt 1)]),
                   PObj Contact (init Contact [])])"
proof -
  have h1: "no_self_key [(''name'', PStr ''ACME'')]"
    by (simp add: no_self_key_def)
  have h2: "list_all no_self_key [[(''id'', PInt 1)], []]"
    by (simp add: no_self_key_def)
  obtain attrs where
    made: "create_from_dict Contact (PDict [(''name'', PStr ''ACME'')]) [] =
             Inr (PObj Contact attrs)"
    and fields: "\<forall>(key, dflt) \<in> set (attribute_defaults Contact).
            (key \<notin> fst ` set [(''name'', PStr ''ACME'')] \<longrightarrow> map_of attrs key = Some dflt)
          \<and> (\<forall>v. map_of [(''name'', PStr ''ACME'')] key = Some v \<longrightarrow>
                 map_of attrs key = Some v)"
    and many: "create_from_dict Contact (PList (map PDict [[(''id'', PInt 1)], []])) [] =
          Inr (PList (map (\<lambda>d. PObj Contact (init Contact d)) [[(''id'', PInt 1)], []]))"
    using create_from_dict_defaults[OF h1 h2, of Contact] by blast
  have d1: "(''id'', PNone) \<in> set (attribute_defaults Contact)" by simp
  have d2: "(''name'', PNone) \<in> set (attribute_defaults Contact)" by simp
  have "map_of attrs ''id'' = Some PNone"
    using fields d1 by fastforce
  moreover have "map_of attrs ''name'' = Some (PStr ''ACME'')"
    using fields d2 by fastforce
  ultimately show ?thesis using made many d1 d2 h1 h2 by auto
qed

subsection \<open>Serialisation of collections\<close>

text \<open>
  C10. In every instance, a declared field whose value is an empty list, tuple or set is
  in the mapping of \<open>to_dict\<close>, as an empty list; any list, tuple or set is there as
  the list of its serialised elements. A value that is neither a collection nor a model
  instance is there exactly when it is truthy.
\<close>

theorem to_dict_keeps_empty_collections:
  assumes "instance_of cls attrs" and "map_of attrs key = Some v"
  shows "(v = PList [] \<or> v = PTuple [] \<or> v = PSet [] \<longrightarrow>
            map_of (to_dict attrs) key = Some (PList []))
       \<and> (\<forall>xs. v = PList xs \<or> v = PTuple xs \<or> v = PSet xs \<longrightarrow>
            map_of (to_dict attrs) key = Some (PList (to_dict_objs xs)))
       \<and> ((\<forall>xs. v \<noteq> PList xs \<and> v \<noteq> PTuple xs \<and> v \<noteq> PSet xs) \<and> (\<forall>c a. v \<noteq> PObj c a) \<longrightarrow>
            map_of (to_dict attrs) key = (if truthy v then Some v else None))"
proof -
  have m: "map_of (to_dict attrs) key = to_dict_field v"
    using map_of_to_dict[OF instance_distinct[OF assms(1)], of key] assms(2) by simp
  show ?thesis
    unfolding m by (cases v) auto
qed

theorem to_dict_keeps_empty_collections_witness:
  "instance_of Contact set_contact
   \<and> map_of set_contact ''name'' = Some (PSet [])
   \<and> map_of (to_dict set_contact) ''name'' = Some (PList [])"
proof -
  have i: "instance_of Contact set_contact"
    by (simp add: set_contact_def instance_init)
  have f: "map_of set_contact ''name'' = Some (PSet [])"
    by (simp add: set_contact_def init_def)
  show ?thesis
    using to_dict_keeps_empty_collections[OF i f] i f by simp
qed

subsection \<open>Equality\<close>

text \<open>
  C3, as stated, fails: the contacts decoded from \<open>{"active": false}\<close> and from
  \<open>{}\<close> differ in the field \<open>active\<close>, so their field-value mappings are not equal,
  and they compare equal, because \<open>to_dict\<close> leaves the field out of both.
\<close>

theorem eq_ignores_falsy_fields:
  "create_from_dict Contact (PDict [(''active'', PBool False)]) [] =
     Inr (PObj Contact falsy_contact)
   \<and> create_from_dict Contact (PDict []) [] = Inr (PObj Contact (init Contact []))
   \<and> map_of falsy_contact ''active'' = Some (PBool False)
   \<and> map_of (init Contact []) ''active'' = Some PNone
   \<and> \<not> py_eq (PBool False) PNone
   \<and> \<not> py_eq (PDict falsy_contact) (PDict (init Contact []))
   \<and> model_eq falsy_contact (init Contact [])"
  by (simp add: create_from_dict_def falsy_contact_def init_def model_eq_def
      no_self_key_def)


text \<open>
  C3, amended. Two instances compare equal if and only if, for every field, what
  \<open>to_dict\<close> stores for it in the one equals what it stores in the other (a field left
  out of both does not tell them apart); an instance compares equal to itself, so two
  decoded entities with identical field values compare equal.
\<close>

theorem model_eq_iff:
  assumes "instance_of c a" and "instance_of c' b"
  shows "(model_eq a b \<longleftrightarrow>
            (\<forall>key. rel_option py_eq (Option.bind (map_of b key) to_dict_field)
                                   (Option.bind (map_of a key) to_dict_field)))
       \<and> model_eq a a"
proof -
  have da: "distinct (map fst a)" and db: "distinct (map fst b)"
    using assms by (auto dest: instance_distinct)
  have "model_eq a b \<longleftrightarrow>
            (\<forall>key. rel_option py_eq (Option.bind (map_of b key) to_dict_field)
                                   (Option.bind (map_of a key) to_dict_field))"
    by (simp only: model_eq_maps map_of_to_dict[OF da] map_of_to_dict[OF db])
  moreover have "model_eq a a"
    by (simp add: model_eq_def py_eq_refl)
  ultimately show ?thesis by simp
qed

theorem model_eq_iff_witness:
  "instance_of Contact falsy_contact \<and> instance_of Contact (init Contact [])
   \<and> model_eq falsy_contact (init Contact [])
   \<and> Option.bind (map_of (init Contact []) ''active'') to_dict_field = None
   \<and> Option.bind (map_of falsy_contact ''active'') to_dict_field = None
   \<and> model_eq falsy_contact falsy_contact"
proof -
  have i1: "instance_of Contact falsy_contact"
    by (simp add: falsy_contact_def instance_init)
  have i2: "instance_of Contact (init Contact [])"
    by (rule instance_init)
  have e: "model_eq falsy_contact (init Contact [])"
    by (simp add: falsy_contact_def init_def model_eq_def)
  have "Option.bind (map_of (init Contact []) ''active'') to_dict_field = None"
    and "Option.bind (map_of falsy_contact ''active'') to_dict_field = None"
    by (simp_all add: falsy_contact_def init_def)
  then show ?thesis
    using model_eq_iff[OF i1 i2] i1 i2 e by simp
qed

subsection \<open>Round trip\<close>

text \<open>
  C6, as stated, fails: a contact whose name is an account with no field set serialises
  to \<open>{"name": {}}\<close>; decoded again, its name is the empty dictionary, which
  \<open>to_dict\<close> leaves out, and the two contacts compare unequal.
\<close>

theorem round_trip_loses_empty_nested:
  "instance_of Contact nested_contact
   \<and> create_from_dict Contact (PDict (to_dict nested_contact)) [] =
       Inr (PObj Contact (init Contact [(''name'', PDict [])]))
   \<and> \<not> model_eq (init Contact [(''name'', PDict [])]) nested_contact"
  by (simp add: create_from_dict_def nested_contact_def init_def model_eq_def
      instance_of_def no_self_key_def)

text \<open>
  C6, amended. For every instance in which no field holds a model instance whose own
  mapping is empty, decoding the mapping of \<open>to_dict\<close> with the instance's class gives
  an instance of that class that compares equal to the original, in either order.
\<close>

theorem round_trip:
  assumes "instance_of cls a" and "no_empty_nested a"
  shows "create_from_dict cls (PDict (to_dict a)) [] = Inr (PObj cls (init cls (to_dict a)))
       \<and> instance_of cls (init cls (to_dict a))
       \<and> model_eq (init cls (to_dict a)) a
       \<and> model_eq a (init cls (to_dict a))"
proof -
  let ?a' = "init cls (to_dict a)"
  have made: "create_from_dict cls (PDict (to_dict a)) [] = Inr (PObj cls ?a')"
    using no_self_key_to_dict[OF assms(1)] by (simp add: create_from_dict_def)
  have inst: "instance_of cls ?a'"
    by (rule instance_init)
  have da: "distinct (map fst a)" and da': "distinct (map fst ?a')"
    using assms(1) inst by (auto dest: instance_distinct)
  have nested: "to_dict obj \<noteq> []" if "map_of a key = Some (PObj c obj)" for key c obj
  proof -
    have "(key, PObj c obj) \<in> set a" using that by (rule map_of_SomeD)
    with assms(2) show ?thesis
      by (auto simp: no_empty_nested_def list_all_iff)
  qed
  have same: "map_of (to_dict ?a') key = map_of (to_dict a) key" for key
  proof (cases "map_of a key")
    case None
    then have "key \<notin> fst ` set (attribute_defaults cls)"
      using instance_lookup[OF assms(1), of key] by simp
    then have "map_of (attribute_defaults cls) key = None"
      by (simp add: map_of_eq_None_iff)
    with None show ?thesis
      by (simp add: map_of_to_dict[OF da] map_of_to_dict[OF da'] map_of_init)
  next
    case (Some v)
    then have "key \<in> fst ` set (attribute_defaults cls)"
      using instance_lookup[OF assms(1), of key] by blast
    then obtain dflt where decl: "(key, dflt) \<in> set (attribute_defaults cls)"
      by auto
    then have dflt: "dflt = PNone" by (rule defaults_None)
    have lookup: "map_of (attribute_defaults cls) key = Some PNone"
      using map_of_defaults[OF decl] dflt by simp
    have ser: "map_of (to_dict a) key = to_dict_field v"
      using Some by (simp add: map_of_to_dict[OF da])
    show ?thesis
    proof (cases "to_dict_field v")
      case None
      with ser lookup show ?thesis
        by (simp add: map_of_to_dict[OF da'] map_of_init)
    next
      case (Some u)
      have "to_dict_field u = Some u"
      proof (rule to_dict_field_idem[OF Some])
        fix c obj
        assume "v = PObj c obj"
        with \<open>map_of a key = Some v\<close> show "to_dict obj \<noteq> []" by (simp add: nested)
      qed
      with Some ser lookup show ?thesis
        by (simp add: map_of_to_dict[OF da'] map_of_init)
    qed
  qed
  have "rel_option py_eq m m" for m :: "pyval option"
    by (cases m) (simp_all add: py_eq_refl)
  then have "model_eq ?a' a" and "model_eq a ?a'"
    by (simp_all add: model_eq_maps same)
  with made inst show ?thesis by blast
qed

theorem round_trip_witness:
  "instance_of Contact named_contact
   \<and> no_empty_nested named_contact
   \<and> create_from_dict Contact (PDict (to_dict named_contact)) [] =
       Inr (PObj Contact (init Contact [(''name'', PStr ''ACME'')]))
   \<and> model_eq (init Contact [(''name'', PStr ''ACME'')]) named_contact"
proof -
  have i: "instance_of Contact named_contact"
    by (simp add: named_contact_def instance_init)
  have n: "no_empty_nested named_contact"
    by (simp add: named_contact_def init_def no_empty_nested_def)
  have t: "to_dict named_contact = [(''name'', PStr ''ACME'')]"
    by (simp add: named_contact_def init_def)
  show ?thesis
    using round_trip[OF i n] i n by (simp add: t)
qed

end
